theory Spec2Isabelle
  imports Main
begin

section \<open>Python strings\<close>

text \<open>
  A Python \<open>str\<close> is modelled as a \<open>string\<close>: a list of characters, each standing for one
  code point below 256. The functions of this section are the string methods the
  extractor calls, written for the arguments it passes.
\<close>

definition backslash :: char where "backslash = CHR 0x5C"
definition tab :: char where "tab = CHR 0x09"
definition cr :: char where "cr = CHR 0x0D"
definition newline :: char where "newline = CHR 0x0A"

text \<open>
  \<open>s.replace(old, new)\<close>: the occurrences of \<open>old\<close> are replaced from the left, without
  overlap. The extractor only calls it with a one-character \<open>old\<close>; an empty \<open>old\<close>
  (which Python treats specially) is left alone here.
\<close>

fun str_replace :: "string \<Rightarrow> string \<Rightarrow> string \<Rightarrow> string" where
  "str_replace old new [] = []"
| "str_replace old new (c # cs) =
     (if old \<noteq> [] \<and> take (length old) (c # cs) = old
      then new @ str_replace old new (drop (length old) (c # cs))
      else c # str_replace old new cs)"

text \<open>\<open>sep.join(xs)\<close>\<close>

fun str_join :: "string \<Rightarrow> string list \<Rightarrow> string" where
  "str_join sep [] = []"
| "str_join sep [x] = x"
| "str_join sep (x # y # ys) = x @ sep @ str_join sep (y # ys)"

text \<open>
  \<open>s.lower()\<close>, character by character: the capital letters A to Z and the capital letters
  of the Latin-1 block (all of 0xC0 to 0xDE but the multiplication sign) move up by 32.
\<close>

definition lower_char :: "char \<Rightarrow> char" where
  "lower_char c =
     (let k = (of_char c :: nat)
      in if (65 \<le> k \<and> k \<le> 90) \<or> (192 \<le> k \<and> k \<le> 222 \<and> k \<noteq> 215)
         then char_of (k + 32) else c)"

definition str_lower :: "string \<Rightarrow> string" where
  "str_lower s = map lower_char s"

text \<open>
  \<open>s.strip()\<close> removes leading and trailing whitespace. Below 256, Python's whitespace is
  0x09 to 0x0D, 0x1C to 0x20, 0x85 and 0xA0.
\<close>

definition is_space :: "char \<Rightarrow> bool" where
  "is_space c =
     (let k = (of_char c :: nat)
      in (9 \<le> k \<and> k \<le> 13) \<or> (28 \<le> k \<and> k \<le> 32) \<or> k = 133 \<or> k = 160)"

definition str_strip :: "string \<Rightarrow> string" where
  "str_strip s = rev (dropWhile is_space (rev (dropWhile is_space s)))"

text \<open>\<open>s.split(sep)\<close> for a one-character separator: \<open>"".split(",")\<close> is \<open>[""]\<close>.\<close>

fun str_split :: "char \<Rightarrow> string \<Rightarrow> string list" where
  "str_split sep [] = [[]]"
| "str_split sep (c # cs) =
     (if c = sep then [] # str_split sep cs
      else (case str_split sep cs of
              [] \<Rightarrow> [[c]]
            | w # ws \<Rightarrow> (c # w) # ws))"

text \<open>\<open>str(i)\<close> for an integer: decimal digits, a minus sign before a negative number.\<close>

definition digit :: "nat \<Rightarrow> char" where
  "digit d = ''0123456789'' ! d"

fun str_nat :: "nat \<Rightarrow> string" where
  "str_nat k = (if k < 10 then [digit k] else str_nat (k div 10) @ [digit (k mod 10)])"

declare str_nat.simps [simp del]

definition str_int :: "int \<Rightarrow> string" where
  "str_int i = (if i < 0 then CHR ''-'' # str_nat (nat (- i)) else str_nat (nat i))"

text \<open>\<open>x or ""\<close> for an optional string.\<close>

definition or_empty :: "string option \<Rightarrow> string" where
  "or_empty x = (case x of None \<Rightarrow> [] | Some s \<Rightarrow> s)"

section \<open>Escaping (\<open>_esc\<close>)\<close>

text \<open>
  \<^verbatim>\<open>
  def _esc(s):
      if not s:
          return s
      return s.replace("\\", "\\\\").replace("\t", "\\t").replace("\r", "\\r").replace("\n", "\\n")
  \<close>
\<close>

definition esc :: "string \<Rightarrow> string" where
  "esc s =
     (if s = [] then s
      else str_replace [newline] [backslash, CHR ''n'']
             (str_replace [cr] [backslash, CHR ''r'']
               (str_replace [tab] [backslash, CHR ''t'']
                 (str_replace [backslash] [backslash, backslash] s))))"

text \<open>
  The decoder paired with \<open>esc\<close>. The source has no decoder; this one reads the four
  two-character sequences back and is used to state that \<open>esc\<close> loses nothing.
\<close>

fun unescape :: "string \<Rightarrow> string" where
  "unescape [] = []"
| "unescape [c] = [c]"
| "unescape (a # b # s) =
     (if a = backslash \<and> b = backslash then backslash # unescape s
      else if a = backslash \<and> b = CHR ''t'' then tab # unescape s
      else if a = backslash \<and> b = CHR ''r'' then cr # unescape s
      else if a = backslash \<and> b = CHR ''n'' then newline # unescape s
      else a # unescape (b # s))"

text \<open>What \<open>esc\<close> does to one character.\<close>

definition esc_char :: "char \<Rightarrow> string" where
  "esc_char c =
     (if c = backslash then [backslash, backslash]
      else if c = tab then [backslash, CHR ''t'']
      else if c = cr then [backslash, CHR ''r'']
      else if c = newline then [backslash, CHR ''n'']
      else [c])"

section \<open>The workbook, as the loader presents it\<close>

text \<open>
  The loader (openpyxl) is outside the repository. A workbook is what the extractor reads
  from it: the sheet names in order, and for each sheet its used range and its cells.

  A raw cell value is \<open>None\<close>, a string, an integer, a boolean, or a value of another type
  (a float, a date), which is kept as the text \<open>str()\<close> gives for it.
\<close>

datatype raw = VNone | VStr string | VInt int | VBool bool | VOther string

record xl_color =
  rgb :: "string option"

text \<open>
  Font sizes are kept as integers: the extractor only tests a size for truth and prints it.
\<close>

record xl_font =
  f_bold :: bool
  f_name :: "string option"
  f_size :: "int option"
  f_color :: "xl_color option"

record xl_fill =
  fgColor :: "xl_color option"

record xl_cell =
  c_value :: raw
  c_font :: "xl_font option"
  c_fill :: "xl_fill option"

record worksheet =
  min_row :: "nat option"
  max_row :: "nat option"
  min_column :: "nat option"
  max_column :: "nat option"
  grid :: "int \<Rightarrow> int \<Rightarrow> xl_cell"

type_synonym workbook = "(string \<times> worksheet) list"

datatype fault = ValueError | KeyError | LoadFault

text \<open>\<open>ws.cell(row=row, column=col)\<close>: the loader rejects a coordinate below 1.\<close>

definition ws_cell :: "worksheet \<Rightarrow> int \<Rightarrow> int \<Rightarrow> fault + xl_cell" where
  "ws_cell ws r k = (if r < 1 \<or> k < 1 then Inl ValueError else Inr (grid ws r k))"

definition sheetnames :: "workbook \<Rightarrow> string list" where
  "sheetnames wb = map fst wb"

text \<open>\<open>wb[name]\<close>\<close>

definition wb_getitem :: "workbook \<Rightarrow> string \<Rightarrow> fault + worksheet" where
  "wb_getitem wb name = (case map_of wb name of None \<Rightarrow> Inl KeyError | Some ws \<Rightarrow> Inr ws)"

text \<open>
  The host's file system: what is stored under a path (a file, with what loading it gives,
  or a directory), and the form \<open>pathlib\<close> gives a non-empty path.
\<close>

datatype entry = File "fault + workbook" | Directory

record host =
  entries :: "string \<Rightarrow> entry option"
  normalize :: "string \<Rightarrow> string"

text \<open>\<open>str(Path(p))\<close>: the empty path is the current directory, \<open>.\<close>\<close>

definition path_str :: "host \<Rightarrow> string \<Rightarrow> string" where
  "path_str h p = (if p = [] then ''.'' else normalize h p)"

text \<open>What the system finds at a path; the current directory is always there.\<close>

definition os_stat :: "host \<Rightarrow> string \<Rightarrow> entry option" where
  "os_stat h q = (if q = ''.'' then Some Directory else entries h q)"

text \<open>\<open>Path(p).exists()\<close>: true of a directory as of a file.\<close>

definition path_exists :: "host \<Rightarrow> string \<Rightarrow> bool" where
  "path_exists h p = (case os_stat h (path_str h p) of None \<Rightarrow> False | Some e \<Rightarrow> True)"

text \<open>\<open>openpyxl.load_workbook(q)\<close>: nothing but a file can be loaded.\<close>

definition load_workbook :: "host \<Rightarrow> string \<Rightarrow> fault + workbook" where
  "load_workbook h q =
     (case os_stat h q of
        None \<Rightarrow> Inl LoadFault
      | Some Directory \<Rightarrow> Inl LoadFault
      | Some (File r) \<Rightarrow> r)"

section \<open>Normalized cells (\<open>_CellData\<close>)\<close>

record cell_data =
  row :: int
  col :: int
  "value" :: string
  is_formula :: bool
  bold :: bool
  font_name :: "string option"
  font_size :: "int option"
  font_color :: string
  fill_color :: string

text \<open>
  \<^verbatim>\<open>
  def _font_color(cell):
      if not cell.font or not cell.font.color:
          return ""
      return getattr(cell.font.color, "rgb", None) or ""
  \<close>
\<close>

definition font_color_of :: "xl_cell \<Rightarrow> string" where
  "font_color_of cell =
     (case c_font cell of
        None \<Rightarrow> []
      | Some fnt \<Rightarrow> (case f_color fnt of None \<Rightarrow> [] | Some k \<Rightarrow> or_empty (rgb k)))"

definition fill_color_of :: "xl_cell \<Rightarrow> string" where
  "fill_color_of cell =
     (case c_fill cell of
        None \<Rightarrow> []
      | Some fl \<Rightarrow> (case fgColor fl of None \<Rightarrow> [] | Some k \<Rightarrow> or_empty (rgb k)))"

text \<open>
  \<^verbatim>\<open>
  def _cell_value_str(cell):
      if cell.value is None:
          return ""
      return cell.value if isinstance(cell.value, str) else str(cell.value)
  \<close>
\<close>

definition cell_value_str :: "xl_cell \<Rightarrow> string" where
  "cell_value_str cell =
     (case c_value cell of
        VNone \<Rightarrow> []
      | VStr s \<Rightarrow> s
      | VInt i \<Rightarrow> str_int i
      | VBool b \<Rightarrow> (if b then ''True'' else ''False'')
      | VOther s \<Rightarrow> s)"

text \<open>\<open>isinstance(val, str) and val.startswith("=")\<close>\<close>

definition formula_value :: "raw \<Rightarrow> bool" where
  "formula_value val = (case val of VStr s \<Rightarrow> take 1 s = ''='' | _ \<Rightarrow> False)"

section \<open>Field selection (\<open>_parse_out\<close>)\<close>

definition DEFAULT_OUT :: string where "DEFAULT_OUT = ''vbf''"
definition DEFAULT_FMT :: string where "DEFAULT_FMT = ''j''"

text \<open>
  The dictionary \<open>_parse_out\<close> returns always has the same seven keys: it is a record,
  \<open>sel_v\<close> standing for \<open>fields["v"]\<close>.
  \<^verbatim>\<open>
  def _parse_out(out):
      o = (out or DEFAULT_OUT).lower()
      return {"v": "v" in o, "b": "b" in o, "n": "n" in o, "z": "z" in o,
              "c": "c" in o, "g": "g" in o, "f": "f" in o}
  \<close>
\<close>

record fields =
  sel_v :: bool
  sel_b :: bool
  sel_n :: bool
  sel_z :: bool
  sel_c :: bool
  sel_g :: bool
  sel_f :: bool

definition parse_out :: "string \<Rightarrow> fields" where
  "parse_out out =
     (let low = str_lower (if out = [] then DEFAULT_OUT else out)
      in \<lparr> sel_v = CHR ''v'' \<in> set low, sel_b = CHR ''b'' \<in> set low,
           sel_n = CHR ''n'' \<in> set low, sel_z = CHR ''z'' \<in> set low,
           sel_c = CHR ''c'' \<in> set low, sel_g = CHR ''g'' \<in> set low,
           sel_f = CHR ''f'' \<in> set low \<rparr>)"

section \<open>Range resolution and extraction\<close>

text \<open>\<open>val is None or (isinstance(val, str) and not val.strip())\<close>\<close>

definition is_blank :: "raw \<Rightarrow> bool" where
  "is_blank val = (case val of VNone \<Rightarrow> True | VStr s \<Rightarrow> str_strip s = [] | _ \<Rightarrow> False)"

text \<open>\<open>ws.min_row or 1\<close>: \<open>None\<close> and 0 both give 1.\<close>

definition or_one :: "nat option \<Rightarrow> int" where
  "or_one x = (case x of None \<Rightarrow> 1 | Some k \<Rightarrow> if k = 0 then 1 else int k)"

definition sheet_range :: "worksheet \<Rightarrow> int \<Rightarrow> int \<Rightarrow> int \<Rightarrow> int \<Rightarrow> int \<times> int \<times> int \<times> int" where
  "sheet_range ws row_start row_end col_start col_end =
     (let r1 = (if row_start > 0 then row_start else or_one (min_row ws));
          r2 = (if row_end > 0 then row_end else or_one (max_row ws));
          c1 = (if col_start > 0 then col_start else or_one (min_column ws));
          c2 = (if col_end > 0 then col_end else or_one (max_column ws))
      in (r1, r2, c1, c2))"

text \<open>The \<open>_CellData(...)\<close> built for one coordinate.\<close>

definition make_cell :: "int \<Rightarrow> int \<Rightarrow> xl_cell \<Rightarrow> cell_data" where
  "make_cell r k cell =
     \<lparr> row = r, col = k,
       value = cell_value_str cell,
       is_formula = formula_value (c_value cell),
       bold = (case c_font cell of None \<Rightarrow> False | Some fnt \<Rightarrow> f_bold fnt),
       font_name = (case c_font cell of None \<Rightarrow> Some [] | Some fnt \<Rightarrow> f_name fnt),
       font_size = (case c_font cell of None \<Rightarrow> None | Some fnt \<Rightarrow> f_size fnt),
       font_color = font_color_of cell,
       fill_color = fill_color_of cell \<rparr>"

text \<open>
  \<open>_collect_cells\<close>: the inner loop over the columns of one row, then the outer loop over
  the rows; \<open>cells\<close> is the list both append to.
\<close>

fun collect_cols :: "worksheet \<Rightarrow> bool \<Rightarrow> int \<Rightarrow> int list \<Rightarrow> cell_data list \<Rightarrow> fault + cell_data list" where
  "collect_cols ws sparse r [] cells = Inr cells"
| "collect_cols ws sparse r (k # ks) cells =
     (case ws_cell ws r k of
        Inl e \<Rightarrow> Inl e
      | Inr cell \<Rightarrow>
          if sparse \<and> is_blank (c_value cell) then collect_cols ws sparse r ks cells
          else collect_cols ws sparse r ks (cells @ [make_cell r k cell]))"

fun collect_rows :: "worksheet \<Rightarrow> bool \<Rightarrow> int list \<Rightarrow> int list \<Rightarrow> cell_data list \<Rightarrow> fault + cell_data list" where
  "collect_rows ws sparse [] ks cells = Inr cells"
| "collect_rows ws sparse (r # rs) ks cells =
     (case collect_cols ws sparse r ks cells of
        Inl e \<Rightarrow> Inl e
      | Inr cells' \<Rightarrow> collect_rows ws sparse rs ks cells')"

definition collect_cells :: "worksheet \<Rightarrow> int \<Rightarrow> int \<Rightarrow> int \<Rightarrow> int \<Rightarrow> bool \<Rightarrow> fault + cell_data list" where
  "collect_cells ws r1 r2 c1 c2 sparse = collect_rows ws sparse [r1..r2] [c1..c2] []"

section \<open>Projection of a cell\<close>

text \<open>
  The values \<open>json.dumps\<close> is given. A dictionary keeps its keys in insertion order, so it is
  a list of pairs.
\<close>

datatype json = JNull | JBool bool | JInt int | JStr string | JList "json list"
  | JDict "(string \<times> json) list"

text \<open>\<open>d[k] = x\<close>: a key already there keeps its place and takes the new value.\<close>

fun dict_set :: "(string \<times> 'a) list \<Rightarrow> string \<Rightarrow> 'a \<Rightarrow> (string \<times> 'a) list" where
  "dict_set [] k x = [(k, x)]"
| "dict_set ((k', y) # d) k x = (if k' = k then (k, x) # d else (k', y) # dict_set d k x)"

text \<open>
  \<open>_cell_to_json\<close>: each assignment puts a key the dictionary does not have yet, that is,
  it appends.
  \<^verbatim>\<open>
      obj = {"row": cell.row, "col": cell.col}
      if fields["v"]: obj["value"] = cell.value
      if fields["f"] and cell.is_formula: obj["formula"] = True
      if fields["b"]: obj["bold"] = cell.bold
      if fields["n"]: obj["font_name"] = cell.font_name or ""
      if fields["z"]: obj["font_size"] = cell.font_size
      if fields["c"]: obj["font_color"] = cell.font_color
      if fields["g"]: obj["fill_color"] = cell.fill_color
  \<close>
\<close>

definition cell_to_json :: "cell_data \<Rightarrow> fields \<Rightarrow> (string \<times> json) list" where
  "cell_to_json cell flds =
     [(''row'', JInt (row cell)), (''col'', JInt (col cell))]
     @ (if sel_v flds then [(''value'', JStr (value cell))] else [])
     @ (if sel_f flds \<and> is_formula cell then [(''formula'', JBool True)] else [])
     @ (if sel_b flds then [(''bold'', JBool (bold cell))] else [])
     @ (if sel_n flds then [(''font_name'', JStr (or_empty (font_name cell)))] else [])
     @ (if sel_z flds
        then [(''font_size'', (case font_size cell of None \<Rightarrow> JNull | Some k \<Rightarrow> JInt k))]
        else [])
     @ (if sel_c flds then [(''font_color'', JStr (font_color cell))] else [])
     @ (if sel_g flds then [(''fill_color'', JStr (fill_color cell))] else [])"

text \<open>
  \<open>_cell_to_text_parts\<close>
  \<^verbatim>\<open>
      parts = ["c", str(cell.row), str(cell.col)]
      if fields["v"]: parts.append(_esc(cell.value))
      if fields["f"]: parts.append("1" if cell.is_formula else "0")
      if fields["b"]: parts.append("1" if cell.bold else "0")
      if fields["n"]: parts.append(_esc(cell.font_name or ""))
      if fields["z"]: parts.append(str(cell.font_size) if cell.font_size else "")
      if fields["c"]: parts.append(_esc(cell.font_color))
      if fields["g"]: parts.append(_esc(cell.fill_color))
  \<close>
\<close>

definition cell_to_text_parts :: "cell_data \<Rightarrow> fields \<Rightarrow> string list" where
  "cell_to_text_parts cell flds =
     [''c'', str_int (row cell), str_int (col cell)]
     @ (if sel_v flds then [esc (value cell)] else [])
     @ (if sel_f flds then [if is_formula cell then ''1'' else ''0''] else [])
     @ (if sel_b flds then [if bold cell then ''1'' else ''0''] else [])
     @ (if sel_n flds then [esc (or_empty (font_name cell))] else [])
     @ (if sel_z flds
        then [case font_size cell of
                None \<Rightarrow> []
              | Some k \<Rightarrow> if k = 0 then [] else str_int k]
        else [])
     @ (if sel_c flds then [esc (font_color cell)] else [])
     @ (if sel_g flds then [esc (fill_color cell)] else [])"

section \<open>Serialization (\<open>json.dumps\<close> with \<open>ensure_ascii=False\<close>)\<close>

definition dquote :: char where "dquote = CHR 0x22"

definition hex_digit :: "nat \<Rightarrow> char" where
  "hex_digit d = ''0123456789abcdef'' ! d"

text \<open>
  Inside a JSON string the quote, the backslash and the control characters are escaped;
  everything else is written as it is.
\<close>

definition json_char :: "char \<Rightarrow> string" where
  "json_char c =
     (if c = dquote then [backslash, dquote]
      else if c = backslash then [backslash, backslash]
      else if c = newline then [backslash, CHR ''n'']
      else if c = cr then [backslash, CHR ''r'']
      else if c = tab then [backslash, CHR ''t'']
      else if c = CHR 0x08 then [backslash, CHR ''b'']
      else if c = CHR 0x0C then [backslash, CHR ''f'']
      else if (of_char c :: nat) < 32
        then [backslash, CHR ''u'', CHR ''0'', CHR ''0'',
              hex_digit (of_char c div 16), hex_digit (of_char c mod 16)]
      else [c])"

definition json_str :: "string \<Rightarrow> string" where
  "json_str s = [dquote] @ concat (map json_char s) @ [dquote]"

fun json_dumps :: "json \<Rightarrow> string" where
  "json_dumps JNull = ''null''"
| "json_dumps (JBool b) = (if b then ''true'' else ''false'')"
| "json_dumps (JInt i) = str_int i"
| "json_dumps (JStr s) = json_str s"
| "json_dumps (JList xs) = ''['' @ str_join '', '' (map json_dumps xs) @ '']''"
| "json_dumps (JDict kvs) =
     ''{'' @ str_join '', '' (map (\<lambda>kv. json_str (fst kv) @ '': '' @ json_dumps (snd kv)) kvs)
     @ ''}''"

section \<open>The pipeline (\<open>read_excel\<close>)\<close>

text \<open>
  The first loop of \<open>read_excel\<close>, filling \<open>cells_by_sheet\<close>:
  \<^verbatim>\<open>
        for name in sheet_names:
            if name not in wb.sheetnames:
                continue
            ws = wb[name]
            r1, r2, c1, c2 = _sheet_range(ws, row_start, row_end, col_start, col_end)
            if r2 < r1 or c2 < c1:
                continue
            cells_by_sheet[name] = _collect_cells(ws, r1, r2, c1, c2, sparse)
  \<close>
\<close>

fun collect_sheets ::
  "workbook \<Rightarrow> string list \<Rightarrow> int \<Rightarrow> int \<Rightarrow> int \<Rightarrow> int \<Rightarrow> bool
   \<Rightarrow> (string \<rightharpoonup> cell_data list) \<Rightarrow> fault + (string \<rightharpoonup> cell_data list)" where
  "collect_sheets wb [] row_start row_end col_start col_end sparse cbs = Inr cbs"
| "collect_sheets wb (name # names) row_start row_end col_start col_end sparse cbs =
     (if name \<notin> set (sheetnames wb)
      then collect_sheets wb names row_start row_end col_start col_end sparse cbs
      else (case wb_getitem wb name of
              Inl e \<Rightarrow> Inl e
            | Inr ws \<Rightarrow>
                (case sheet_range ws row_start row_end col_start col_end of
                   (r1, r2, c1, c2) \<Rightarrow>
                     if r2 < r1 \<or> c2 < c1
                     then collect_sheets wb names row_start row_end col_start col_end sparse cbs
                     else (case collect_cells ws r1 r2 c1 c2 sparse of
                             Inl e \<Rightarrow> Inl e
                           | Inr cells \<Rightarrow>
                               collect_sheets wb names row_start row_end col_start col_end
                                 sparse (cbs(name \<mapsto> cells))))))"

text \<open>
  The loop of the structured branch, filling \<open>result\<close>:
  \<^verbatim>\<open>
        for name in sheet_names:
            if name in cells_by_sheet:
                result[name] = {"cells": [_cell_to_json(c, fields) for c in cells_by_sheet[name]]}
  \<close>
\<close>

definition sheet_json :: "cell_data list \<Rightarrow> fields \<Rightarrow> json" where
  "sheet_json cells flds = JDict [(''cells'', JList (map (\<lambda>c. JDict (cell_to_json c flds)) cells))]"

fun json_result ::
  "string list \<Rightarrow> (string \<rightharpoonup> cell_data list) \<Rightarrow> fields \<Rightarrow> (string \<times> json) list
   \<Rightarrow> (string \<times> json) list" where
  "json_result [] cbs flds result = result"
| "json_result (name # names) cbs flds result =
     (case cbs name of
        None \<Rightarrow> json_result names cbs flds result
      | Some cells \<Rightarrow> json_result names cbs flds (dict_set result name (sheet_json cells flds)))"

text \<open>
  The loop of the text branch, filling \<open>lines\<close>:
  \<^verbatim>\<open>
    for name in sheet_names:
        if name not in cells_by_sheet:
            continue
        lines.append(">" + _esc(name))
        for cell in cells_by_sheet[name]:
            lines.append("\t".join(_cell_to_text_parts(cell, fields)))
  \<close>
\<close>

definition sheet_lines :: "string \<Rightarrow> cell_data list \<Rightarrow> fields \<Rightarrow> string list" where
  "sheet_lines name cells flds =
     (''>'' @ esc name) # map (\<lambda>c. str_join [tab] (cell_to_text_parts c flds)) cells"

fun text_lines ::
  "string list \<Rightarrow> (string \<rightharpoonup> cell_data list) \<Rightarrow> fields \<Rightarrow> string list \<Rightarrow> string list" where
  "text_lines [] cbs flds lines = lines"
| "text_lines (name # names) cbs flds lines =
     (case cbs name of
        None \<Rightarrow> text_lines names cbs flds lines
      | Some cells \<Rightarrow> text_lines names cbs flds (lines @ sheet_lines name cells flds))"

text \<open>\<open>[s.strip() for s in sheets.split(",") if s.strip()]\<close>\<close>

definition parse_sheets :: "string \<Rightarrow> string list" where
  "parse_sheets sheets =
     map str_strip (filter (\<lambda>s. str_strip s \<noteq> []) (str_split CHR '','' sheets))"

text \<open>\<open>(fmt or DEFAULT_FMT).lower()[:1]\<close>\<close>

definition fmt_char :: "string \<Rightarrow> string" where
  "fmt_char fmt = take 1 (str_lower (if fmt = [] then DEFAULT_FMT else fmt))"

definition read_excel ::
  "host \<Rightarrow> string \<Rightarrow> string \<Rightarrow> string \<Rightarrow> string \<Rightarrow> int \<Rightarrow> int \<Rightarrow> int \<Rightarrow> int \<Rightarrow> bool
   \<Rightarrow> fault + string" where
  "read_excel h path out fmt sheets row_start row_end col_start col_end sparse =
     (let flds = parse_out out;
          fc = fmt_char fmt;
          sheet_names = parse_sheets sheets
      in case load_workbook h path of
           Inl e \<Rightarrow> Inl e
         | Inr wb \<Rightarrow>
             (let sheet_names = (if sheet_names = [] then sheetnames wb else sheet_names)
              in case collect_sheets wb sheet_names row_start row_end col_start col_end sparse
                        Map.empty of
                   Inl e \<Rightarrow> Inl e
                 | Inr cells_by_sheet \<Rightarrow>
                     if fc = ''j''
                     then Inr (json_dumps (JDict (json_result sheet_names cells_by_sheet flds [])))
                     else Inr (str_join [newline]
                                 (text_lines sheet_names cells_by_sheet flds []))))"

section \<open>The tool facade (\<open>server.read_excel\<close>)\<close>

text \<open>
  \<^verbatim>\<open>
    p = Path(filepath)
    if not p.exists():
        return f"error: file not found: {filepath}"
    return _read_excel(str(p), out=out, fmt=fmt, sheets=sheets, ...)
  \<close>
\<close>

definition server_read_excel ::
  "host \<Rightarrow> string \<Rightarrow> string \<Rightarrow> string \<Rightarrow> string \<Rightarrow> int \<Rightarrow> int \<Rightarrow> int \<Rightarrow> int \<Rightarrow> bool
   \<Rightarrow> fault + string" where
  "server_read_excel h filepath out fmt sheets row_start row_end col_start col_end sparse =
     (if \<not> path_exists h filepath then Inr (''error: file not found: '' @ filepath)
      else read_excel h (path_str h filepath) out fmt sheets row_start row_end col_start
             col_end sparse)"

section \<open>The process entry point (\<open>_main\<close>)\<close>

text \<open>
  \<^verbatim>\<open>
    path = (sys.argv[1] if len(sys.argv) > 1 else "").strip()
    out = (sys.argv[2] if len(sys.argv) > 2 else DEFAULT_OUT).strip()
    fmt = (sys.argv[3] if len(sys.argv) > 3 else DEFAULT_FMT).strip()
    if not path or not Path(path).exists():
        print("usage: ...", file=sys.stderr)
        sys.exit(1)
    print(read_excel(path, out=out, fmt=fmt))
  \<close>
  A run ends with the usage message and exit status 1, with the result printed, or with a
  fault.
\<close>

datatype run = UsageExit | Printed string | Raised fault

definition main :: "host \<Rightarrow> string list \<Rightarrow> run" where
  "main h argv =
     (let path = str_strip (if length argv > 1 then argv ! 1 else []);
          out = str_strip (if length argv > 2 then argv ! 2 else DEFAULT_OUT);
          fmt = str_strip (if length argv > 3 then argv ! 3 else DEFAULT_FMT)
      in if path = [] \<or> \<not> path_exists h path then UsageExit
         else (case read_excel h path out fmt [] 0 0 0 0 True of
                 Inl e \<Rightarrow> Raised e
               | Inr s \<Rightarrow> Printed s))"

section \<open>Notions of the specification\<close>

text \<open>
  The definitions of this section are not translations of the source: they say, in the
  words of the specification, what the code is compared with.
\<close>

text \<open>A path names an existing file.\<close>

definition names_file :: "host \<Rightarrow> string \<Rightarrow> bool" where
  "names_file h p = (case os_stat h (path_str h p) of Some (File r) \<Rightarrow> True | _ \<Rightarrow> False)"

text \<open>The bound a sheet reports, 1 when it reports none.\<close>

definition natural_bound :: "nat option \<Rightarrow> int" where
  "natural_bound x = (case x of None \<Rightarrow> 1 | Some k \<Rightarrow> int k)"

text \<open>The coordinates of a range in row-major order: row outer, column inner.\<close>

definition row_major :: "int \<Rightarrow> int \<Rightarrow> int \<Rightarrow> int \<Rightarrow> (int \<times> int) list" where
  "row_major r1 r2 c1 c2 = concat (map (\<lambda>r. map (\<lambda>k. (r, k)) [c1..c2]) [r1..r2])"

text \<open>A raw value that is not null and not an empty or whitespace-only string.\<close>

definition has_content :: "raw \<Rightarrow> bool" where
  "has_content val =
     (case val of VNone \<Rightarrow> False | VStr s \<Rightarrow> list_ex (\<lambda>c. \<not> is_space c) s | _ \<Rightarrow> True)"

text \<open>The coordinates extraction keeps: all of them, or with \<open>sparse\<close> those with content.\<close>

definition kept :: "worksheet \<Rightarrow> bool \<Rightarrow> int \<times> int \<Rightarrow> bool" where
  "kept ws sparse p = (if sparse then has_content (c_value (grid ws (fst p) (snd p))) else True)"

definition expected_cells :: "worksheet \<Rightarrow> bool \<Rightarrow> int \<Rightarrow> int \<Rightarrow> int \<Rightarrow> int \<Rightarrow> cell_data list" where
  "expected_cells ws sparse r1 r2 c1 c2 =
     map (\<lambda>p. make_cell (fst p) (snd p) (grid ws (fst p) (snd p)))
       (filter (kept ws sparse) (row_major r1 r2 c1 c2))"

text \<open>
  The key each token of the text rendering after \<open>c\<close>, row and column stands for: one
  key for each branch of \<open>_cell_to_text_parts\<close> that appends, in its order, named as
  \<open>_cell_to_json\<close> names the field the branch prints.
\<close>

definition text_keys :: "fields \<Rightarrow> string list" where
  "text_keys flds =
     (if sel_v flds then [''value''] else [])
     @ (if sel_f flds then [''formula''] else [])
     @ (if sel_b flds then [''bold''] else [])
     @ (if sel_n flds then [''font_name''] else [])
     @ (if sel_z flds then [''font_size''] else [])
     @ (if sel_c flds then [''font_color''] else [])
     @ (if sel_g flds then [''fill_color''] else [])"

text \<open>The token \<open>_cell_to_text_parts\<close> writes for a key.\<close>

definition text_token :: "cell_data \<Rightarrow> string \<Rightarrow> string" where
  "text_token cell k =
     (if k = ''value'' then esc (value cell)
      else if k = ''formula'' then (if is_formula cell then ''1'' else ''0'')
      else if k = ''bold'' then (if bold cell then ''1'' else ''0'')
      else if k = ''font_name'' then esc (or_empty (font_name cell))
      else if k = ''font_size''
        then (case font_size cell of None \<Rightarrow> [] | Some i \<Rightarrow> if i = 0 then [] else str_int i)
      else if k = ''font_color'' then esc (font_color cell)
      else esc (fill_color cell))"

text \<open>The sheet names a call asks for: the listed ones, or all sheets of the workbook.\<close>

definition requested :: "workbook \<Rightarrow> string \<Rightarrow> string list" where
  "requested wb sheets = (if parse_sheets sheets = [] then sheetnames wb else parse_sheets sheets)"

text \<open>A sheet contributes output: it is in the workbook and its resolved range is not inverted.\<close>

definition in_output :: "workbook \<Rightarrow> int \<Rightarrow> int \<Rightarrow> int \<Rightarrow> int \<Rightarrow> string \<Rightarrow> bool" where
  "in_output wb rs re cs ce name =
     (case map_of wb name of
        None \<Rightarrow> False
      | Some ws \<Rightarrow> (case sheet_range ws rs re cs ce of (r1, r2, c1, c2) \<Rightarrow> r1 \<le> r2 \<and> c1 \<le> c2))"

definition cells_of :: "workbook \<Rightarrow> int \<Rightarrow> int \<Rightarrow> int \<Rightarrow> int \<Rightarrow> bool \<Rightarrow> string \<Rightarrow> cell_data list" where
  "cells_of wb rs re cs ce sparse name =
     (case map_of wb name of
        None \<Rightarrow> []
      | Some ws \<Rightarrow> (case sheet_range ws rs re cs ce of
                     (r1, r2, c1, c2) \<Rightarrow> expected_cells ws sparse r1 r2 c1 c2))"

text \<open>A list without its repetitions, each element at its first occurrence.\<close>

fun first_occurrences :: "'a list \<Rightarrow> 'a list" where
  "first_occurrences [] = []"
| "first_occurrences (x # xs) = x # filter (\<lambda>y. y \<noteq> x) (first_occurrences xs)"

text \<open>
  The output document: for the structured encoding one entry per sheet that contributes
  output, for the text encoding the header line and the cell lines of each such sheet.
\<close>

definition structured_doc ::
  "workbook \<Rightarrow> fields \<Rightarrow> int \<Rightarrow> int \<Rightarrow> int \<Rightarrow> int \<Rightarrow> bool \<Rightarrow> string list \<Rightarrow> (string \<times> json) list" where
  "structured_doc wb flds rs re cs ce sparse names =
     map (\<lambda>n. (n, sheet_json (cells_of wb rs re cs ce sparse n) flds))
       (first_occurrences (filter (in_output wb rs re cs ce) names))"

definition text_doc ::
  "workbook \<Rightarrow> fields \<Rightarrow> int \<Rightarrow> int \<Rightarrow> int \<Rightarrow> int \<Rightarrow> bool \<Rightarrow> string list \<Rightarrow> string list" where
  "text_doc wb flds rs re cs ce sparse names =
     concat (map (\<lambda>n. sheet_lines n (cells_of wb rs re cs ce sparse n) flds)
       (filter (in_output wb rs re cs ce) names))"

text \<open>A header line of the text encoding: it starts with \<open>>\<close>.\<close>

definition is_header :: "string \<Rightarrow> bool" where
  "is_header l = (case l of [] \<Rightarrow> False | c # _ \<Rightarrow> c = CHR ''>'')"

definition structured_encoding ::
  "workbook \<Rightarrow> string \<Rightarrow> int \<Rightarrow> int \<Rightarrow> int \<Rightarrow> int \<Rightarrow> bool \<Rightarrow> string \<Rightarrow> string" where
  "structured_encoding wb out rs re cs ce sparse sheets =
     json_dumps (JDict (structured_doc wb (parse_out out) rs re cs ce sparse (requested wb sheets)))"

definition text_encoding ::
  "workbook \<Rightarrow> string \<Rightarrow> int \<Rightarrow> int \<Rightarrow> int \<Rightarrow> int \<Rightarrow> bool \<Rightarrow> string \<Rightarrow> string" where
  "text_encoding wb out rs re cs ce sparse sheets =
     str_join [newline] (text_doc wb (parse_out out) rs re cs ce sparse (requested wb sheets))"

section \<open>A sample workbook\<close>

text \<open>
  The workbook of the specification's end-to-end example, one sheet \<open>Sheet1\<close> with the
  used range rows 1 to 2 and columns 1 to 2, stored at \<open>a.xlsx\<close> beside a directory \<open>data\<close>; a sheet that reports no
  last column; and a cell whose font size is 0.
\<close>

definition plain :: xl_font where
  "plain = \<lparr> f_bold = False, f_name = Some ''Arial'', f_size = Some 11, f_color = None \<rparr>"

definition sample_cell :: "raw \<Rightarrow> bool \<Rightarrow> xl_cell" where
  "sample_cell x bld = \<lparr> c_value = x, c_font = Some (plain \<lparr> f_bold := bld \<rparr>), c_fill = None \<rparr>"

definition sample_sheet :: worksheet where
  "sample_sheet =
     \<lparr> min_row = Some 1, max_row = Some 2, min_column = Some 1, max_column = Some 2,
       grid = (\<lambda>r k. if (r, k) = (1, 1) then sample_cell (VStr ''Name'') True
                      else if (r, k) = (1, 2) then sample_cell (VStr ''Age'') False
                      else if (r, k) = (2, 1) then sample_cell (VStr ''Amy'') False
                      else if (r, k) = (2, 2) then sample_cell (VInt 30) False
                      else sample_cell VNone False) \<rparr>"

definition sample_host :: host where
  "sample_host =
     \<lparr> entries = (\<lambda>p. if p = ''a.xlsx'' then Some (File (Inr [(''Sheet1'', sample_sheet)]))
                      else if p = ''data'' then Some Directory else None),
       normalize = (\<lambda>p. p) \<rparr>"

definition open_sheet :: worksheet where
  "open_sheet = \<lparr> min_row = Some 2, max_row = Some 5, min_column = Some 1, max_column = None,
     grid = (\<lambda>r k. \<lparr> c_value = VNone, c_font = None, c_fill = None \<rparr>) \<rparr>"

definition zero_size_cell :: cell_data where
  "zero_size_cell = \<lparr> row = 1, col = 1, value = ''x'', is_formula = False, bold = False,
             font_name = Some ''Arial'', font_size = Some 0, font_color = [], fill_color = [] \<rparr>"

section \<open>Escaping is reversible\<close>

lemma replace_single:
  "str_replace [x] new s = concat (map (\<lambda>c. if c = x then new else [c]) s)"
  by (induction s) simp_all

lemma distinct_specials:
  "backslash \<noteq> tab" "backslash \<noteq> cr" "backslash \<noteq> newline" "tab \<noteq> cr" "tab \<noteq> newline"
  "cr \<noteq> newline" "CHR ''t'' \<noteq> backslash" "CHR ''r'' \<noteq> backslash" "CHR ''n'' \<noteq> backslash"
  "CHR ''t'' \<noteq> tab" "CHR ''t'' \<noteq> cr" "CHR ''t'' \<noteq> newline"
  "CHR ''r'' \<noteq> tab" "CHR ''r'' \<noteq> cr" "CHR ''r'' \<noteq> newline"
  "CHR ''n'' \<noteq> tab" "CHR ''n'' \<noteq> cr" "CHR ''n'' \<noteq> newline"
  by (simp_all add: backslash_def tab_def cr_def newline_def)

text \<open>
  The four passes amount to one pass that rewrites each character on its own: the backslash
  pass runs first, so the backslashes the later passes insert are never doubled.
\<close>

lemma replace_chain_chars:
  "str_replace [newline] [backslash, CHR ''n'']
     (str_replace [cr] [backslash, CHR ''r'']
       (str_replace [tab] [backslash, CHR ''t'']
         (str_replace [backslash] [backslash, backslash] s))) = concat (map esc_char s)"
  unfolding replace_single
  by (induction s) (use distinct_specials in \<open>auto simp: esc_char_def\<close>)

lemma esc_chars: "esc s = concat (map esc_char s)"
  using replace_chain_chars [of s] by (simp add: esc_def)

lemma esc_char_clean:
  "tab \<notin> set (esc_char c) \<and> cr \<notin> set (esc_char c) \<and> newline \<notin> set (esc_char c)"
  using distinct_specials by (auto simp: esc_char_def)

lemma esc_clean: "tab \<notin> set (esc s) \<and> cr \<notin> set (esc s) \<and> newline \<notin> set (esc s)"
  unfolding esc_chars using esc_char_clean by (induction s) auto

lemma unescape_plain: "a \<noteq> backslash \<Longrightarrow> unescape (a # s) = a # unescape s"
  by (cases s) simp_all

lemma unescape_esc_char: "unescape (esc_char c @ s) = c # unescape s"
  using distinct_specials by (auto simp: esc_char_def unescape_plain)

lemma unescape_esc: "unescape (esc s) = s"
  unfolding esc_chars by (induction s) (simp_all add: unescape_esc_char)

lemma inj_esc: "inj esc"
  by (rule inj_on_inverseI [where g = unescape]) (simp add: unescape_esc)

text \<open>
  C4. \<open>esc\<close> returns the empty string unchanged; on every string it is the four replacements
  with the backslash one applied first, which rewrites each backslash, tab, carriage return
  and newline to its two-character sequence and leaves every other character alone. Its
  output holds no raw tab, carriage return or newline, \<open>unescape\<close> recovers the original,
  and \<open>esc\<close> is injective.
\<close>

theorem esc_reversible:
  "esc [] = []
   \<and> esc s = str_replace [newline] [backslash, CHR ''n'']
               (str_replace [cr] [backslash, CHR ''r'']
                 (str_replace [tab] [backslash, CHR ''t'']
                   (str_replace [backslash] [backslash, backslash] s)))
   \<and> esc s = concat (map esc_char s)
   \<and> tab \<notin> set (esc s) \<and> cr \<notin> set (esc s) \<and> newline \<notin> set (esc s)
   \<and> unescape (esc s) = s
   \<and> inj esc"
proof -
  have "esc [] = []" by (simp add: esc_def)
  moreover have "esc s = str_replace [newline] [backslash, CHR ''n'']
               (str_replace [cr] [backslash, CHR ''r'']
                 (str_replace [tab] [backslash, CHR ''t'']
                   (str_replace [backslash] [backslash, backslash] s)))"
    by (cases s) (simp_all add: esc_def)
  ultimately show ?thesis
    using esc_chars [of s] esc_clean [of s] unescape_esc [of s] inj_esc by simp
qed

theorem esc_reversible_witness:
  "esc [CHR ''a'', tab, backslash, CHR ''n'', newline, cr]
     = [CHR ''a'', backslash, CHR ''t'', backslash, backslash, CHR ''n'',
        backslash, CHR ''n'', backslash, CHR ''r'']
   \<and> unescape (esc [CHR ''a'', tab, backslash, CHR ''n'', newline, cr])
     = [CHR ''a'', tab, backslash, CHR ''n'', newline, cr]"
  using esc_reversible [of "[CHR ''a'', tab, backslash, CHR ''n'', newline, cr]"]
  by (simp add: esc_char_def backslash_def tab_def cr_def newline_def)

section \<open>Letter case\<close>

lemma of_char_lower:
  "(of_char (lower_char c) :: nat) =
     (if (65 \<le> (of_char c :: nat) \<and> (of_char c :: nat) \<le> 90)
         \<or> (192 \<le> (of_char c :: nat) \<and> (of_char c :: nat) \<le> 222 \<and> (of_char c :: nat) \<noteq> 215)
      then of_char c + 32 else of_char c)"
  by (auto simp: lower_char_def Let_def)

lemma lower_char_eq:
  assumes "(of_char t :: nat) = of_char u + 32" "65 \<le> (of_char u :: nat)" "(of_char u :: nat) \<le> 90"
  shows "lower_char c = t \<longleftrightarrow> c = t \<or> c = u"
proof -
  have "(lower_char c = t) = ((of_char (lower_char c) :: nat) = of_char t)" by simp
  also have "\<dots> = ((of_char c :: nat) = of_char t \<or> (of_char c :: nat) = of_char u)"
    unfolding of_char_lower using assms by auto
  finally show ?thesis by simp
qed

lemma lower_letters:
  "lower_char c = CHR ''v'' \<longleftrightarrow> c = CHR ''v'' \<or> c = CHR ''V''"
  "lower_char c = CHR ''b'' \<longleftrightarrow> c = CHR ''b'' \<or> c = CHR ''B''"
  "lower_char c = CHR ''f'' \<longleftrightarrow> c = CHR ''f'' \<or> c = CHR ''F''"
  "lower_char c = CHR ''n'' \<longleftrightarrow> c = CHR ''n'' \<or> c = CHR ''N''"
  "lower_char c = CHR ''z'' \<longleftrightarrow> c = CHR ''z'' \<or> c = CHR ''Z''"
  "lower_char c = CHR ''c'' \<longleftrightarrow> c = CHR ''c'' \<or> c = CHR ''C''"
  "lower_char c = CHR ''g'' \<longleftrightarrow> c = CHR ''g'' \<or> c = CHR ''G''"
  "lower_char c = CHR ''j'' \<longleftrightarrow> c = CHR ''j'' \<or> c = CHR ''J''"
  "lower_char c = CHR ''t'' \<longleftrightarrow> c = CHR ''t'' \<or> c = CHR ''T''"
  by (rule lower_char_eq; simp)+

lemma in_lower:
  "t \<in> set (str_lower s) \<longleftrightarrow> (\<exists>c \<in> set s. lower_char c = t)"
  by (auto simp: str_lower_def)

lemma parse_out_letters:
  assumes "out \<noteq> []"
  shows "sel_v (parse_out out) = (CHR ''v'' \<in> set out \<or> CHR ''V'' \<in> set out)"
    "sel_b (parse_out out) = (CHR ''b'' \<in> set out \<or> CHR ''B'' \<in> set out)"
    "sel_f (parse_out out) = (CHR ''f'' \<in> set out \<or> CHR ''F'' \<in> set out)"
    "sel_n (parse_out out) = (CHR ''n'' \<in> set out \<or> CHR ''N'' \<in> set out)"
    "sel_z (parse_out out) = (CHR ''z'' \<in> set out \<or> CHR ''Z'' \<in> set out)"
    "sel_c (parse_out out) = (CHR ''c'' \<in> set out \<or> CHR ''C'' \<in> set out)"
    "sel_g (parse_out out) = (CHR ''g'' \<in> set out \<or> CHR ''G'' \<in> set out)"
  using assms by (auto simp: parse_out_def Let_def in_lower lower_letters)

lemma fmt_char_j:
  "fmt_char fmt = ''j'' \<longleftrightarrow> fmt = [] \<or> hd fmt = CHR ''j'' \<or> hd fmt = CHR ''J''"
  by (cases fmt) (simp_all add: fmt_char_def DEFAULT_FMT_def str_lower_def lower_letters)

section \<open>Small numbers in decimal\<close>

lemma str_nat_digit: "k < 10 \<Longrightarrow> str_nat k = [digit k]"
  by (simp add: str_nat.simps)

lemma str_int_small: "str_int 0 = ''0''" "str_int 1 = ''1''"
  by (simp_all add: str_int_def str_nat_digit digit_def)

section \<open>Range resolution\<close>

text \<open>
  C6. Range resolution has no error path: it returns four integers for every sheet and
  every four overrides. Each bound is the override when the override is positive and the
  sheet's natural bound otherwise, the natural bound being 1 when the sheet reports none.
  Sheets number their rows and columns from 1, so a reported bound is never 0.
\<close>

theorem sheet_range_resolves:
  assumes "Some 0 \<notin> {min_row ws, max_row ws, min_column ws, max_column ws}"
  shows "sheet_range ws row_start row_end col_start col_end =
     ((if 0 < row_start then row_start else natural_bound (min_row ws)),
      (if 0 < row_end then row_end else natural_bound (max_row ws)),
      (if 0 < col_start then col_start else natural_bound (min_column ws)),
      (if 0 < col_end then col_end else natural_bound (max_column ws)))"
  using assms
  by (auto simp: sheet_range_def Let_def or_one_def natural_bound_def split: option.splits)

theorem sheet_range_resolves_witness:
  "Some 0 \<notin> {min_row open_sheet, max_row open_sheet, min_column open_sheet, max_column open_sheet}
   \<and> sheet_range open_sheet 0 4 (-1) 0 = (2, 4, 1, 1)"
  using sheet_range_resolves [of open_sheet 0 4 "-1" 0]
  by (simp add: open_sheet_def natural_bound_def)

section \<open>Projection\<close>

text \<open>
  C9 fails for a font size of 0. With \<open>z\<close> selected, the text rendering of a cell whose
  font size is present and 0 carries an empty token, not the decimal string \<open>0\<close>; the
  structured projection of the same cell carries the size 0.
\<close>

theorem text_font_size_zero:
  "cell_to_text_parts zero_size_cell (parse_out ''z'') = [''c'', ''1'', ''1'', '''']
   \<and> font_size zero_size_cell = Some 0 \<and> str_int 0 = ''0''
   \<and> cell_to_json zero_size_cell (parse_out ''z'')
       = [(''row'', JInt 1), (''col'', JInt 1), (''font_size'', JInt 0)]"
  by (simp add: cell_to_text_parts_def cell_to_json_def parse_out_def str_lower_def lower_char_def zero_size_cell_def str_int_small)

text \<open>
  C2 as stated fails: with \<open>f\<close> selected, a cell that is not a formula has no \<open>formula\<close>
  key in its structured projection, while its text rendering carries the token \<open>0\<close> for
  it.
\<close>

theorem formula_key_missing:
  "map fst (drop 2 (cell_to_json zero_size_cell (parse_out ''f''))) = []
   \<and> text_keys (parse_out ''f'') = [''formula'']
   \<and> drop 3 (cell_to_text_parts zero_size_cell (parse_out ''f'')) = [''0'']"
  by (simp add: cell_to_text_parts_def cell_to_json_def parse_out_def str_lower_def lower_char_def zero_size_cell_def text_keys_def)

text \<open>
  C2, amended. The tokens of the text rendering after \<open>c\<close>, row and column are those of
  the keys \<open>text_keys\<close> lists, in its order; the keys of the structured projection after
  \<open>row\<close> and \<open>col\<close> are the same keys in the same order, without \<open>formula\<close> when the
  cell is not a formula.
\<close>

theorem field_order_consistent:
  "cell_to_text_parts cell flds =
     [''c'', str_int (row cell), str_int (col cell)] @ map (text_token cell) (text_keys flds)
   \<and> map fst (cell_to_json cell flds) =
     [''row'', ''col''] @ filter (\<lambda>k. k \<noteq> ''formula'' \<or> is_formula cell) (text_keys flds)"
  by (simp add: cell_to_text_parts_def cell_to_json_def text_keys_def text_token_def)

theorem field_order_consistent_witness:
  "cell_to_text_parts zero_size_cell (parse_out ''vfb'') = [''c'', ''1'', ''1'', ''x'', ''0'', ''0'']
   \<and> map fst (cell_to_json zero_size_cell (parse_out ''vfb'')) = [''row'', ''col'', ''value'', ''bold'']
   \<and> map fst (cell_to_json (zero_size_cell \<lparr> is_formula := True \<rparr>) (parse_out ''vfb''))
       = [''row'', ''col'', ''value'', ''formula'', ''bold'']"
proof -
  note plain = field_order_consistent [of zero_size_cell "parse_out ''vfb''"]
  note formula = field_order_consistent [of "zero_size_cell \<lparr> is_formula := True \<rparr>" "parse_out ''vfb''"]
  have k: "text_keys (parse_out ''vfb'') = [''value'', ''formula'', ''bold'']"
    by code_simp
  have t: "map (text_token zero_size_cell) [''value'', ''formula'', ''bold''] = [''x'', ''0'', ''0'']"
    by code_simp
  have r: "str_int (row zero_size_cell) = ''1''" "str_int (col zero_size_cell) = ''1''"
    by (simp_all add: zero_size_cell_def str_int_small)
  have f: "\<not> is_formula zero_size_cell" "is_formula (zero_size_cell \<lparr> is_formula := True \<rparr>)"
    by (simp_all add: zero_size_cell_def)
  have "cell_to_text_parts zero_size_cell (parse_out ''vfb'') = [''c'', ''1'', ''1'', ''x'', ''0'', ''0'']"
    using plain t by (simp only: k r) simp
  moreover have "map fst (cell_to_json zero_size_cell (parse_out ''vfb''))
      = [''row'', ''col'', ''value'', ''bold'']"
    using plain f(1) by (simp only: k) simp
  moreover have "map fst (cell_to_json (zero_size_cell \<lparr> is_formula := True \<rparr>) (parse_out ''vfb''))
      = [''row'', ''col'', ''value'', ''formula'', ''bold'']"
    using formula f(2) by (simp only: k) simp
  ultimately show ?thesis by simp
qed

text \<open>
  C3 as stated fails for the empty string: \<open>out = ""\<close> contains no recognized letter, and
  it selects the default fields \<open>vbf\<close>.
\<close>

theorem empty_out_is_default:
  "set '''' \<inter> set ''vbfnzcgVBFNZCG'' = {}
   \<and> cell_to_json zero_size_cell (parse_out '''')
       = [(''row'', JInt 1), (''col'', JInt 1), (''value'', JStr ''x''), (''bold'', JBool False)]
   \<and> cell_to_text_parts zero_size_cell (parse_out '''') = [''c'', ''1'', ''1'', ''x'', ''0'', ''0'']"
  by (simp add: cell_to_text_parts_def cell_to_json_def parse_out_def str_lower_def lower_char_def zero_size_cell_def str_int_small DEFAULT_OUT_def esc_chars esc_char_def backslash_def tab_def cr_def newline_def)

text \<open>
  C3, amended. For every non-empty \<open>out\<close>: if it contains none of the letters v, b, f, n,
  z, c, g in either case, the structured projection of a cell is its row and column only
  and its text line is the tokens \<open>c\<close>, row, column joined by tabs; and each field is
  selected exactly when its letter occurs in \<open>out\<close> in either case, so that every other
  character is ignored.
\<close>

theorem minimal_output:
  assumes "out \<noteq> []"
  shows "(set out \<inter> set ''vbfnzcgVBFNZCG'' = {} \<longrightarrow>
        cell_to_json cell (parse_out out) = [(''row'', JInt (row cell)), (''col'', JInt (col cell))]
      \<and> cell_to_text_parts cell (parse_out out) = [''c'', str_int (row cell), str_int (col cell)]
      \<and> str_join [tab] (cell_to_text_parts cell (parse_out out))
          = ''c'' @ [tab] @ str_int (row cell) @ [tab] @ str_int (col cell))
    \<and> sel_v (parse_out out) = (CHR ''v'' \<in> set out \<or> CHR ''V'' \<in> set out)
    \<and> sel_b (parse_out out) = (CHR ''b'' \<in> set out \<or> CHR ''B'' \<in> set out)
    \<and> sel_f (parse_out out) = (CHR ''f'' \<in> set out \<or> CHR ''F'' \<in> set out)
    \<and> sel_n (parse_out out) = (CHR ''n'' \<in> set out \<or> CHR ''N'' \<in> set out)
    \<and> sel_z (parse_out out) = (CHR ''z'' \<in> set out \<or> CHR ''Z'' \<in> set out)
    \<and> sel_c (parse_out out) = (CHR ''c'' \<in> set out \<or> CHR ''C'' \<in> set out)
    \<and> sel_g (parse_out out) = (CHR ''g'' \<in> set out \<or> CHR ''G'' \<in> set out)"
proof -
  note letters = parse_out_letters [OF assms]
  have "cell_to_json cell (parse_out out) = [(''row'', JInt (row cell)), (''col'', JInt (col cell))]
      \<and> cell_to_text_parts cell (parse_out out) = [''c'', str_int (row cell), str_int (col cell)]
      \<and> str_join [tab] (cell_to_text_parts cell (parse_out out))
          = ''c'' @ [tab] @ str_int (row cell) @ [tab] @ str_int (col cell)"
    if none: "set out \<inter> set ''vbfnzcgVBFNZCG'' = {}"
  proof -
    have "\<not> sel_v (parse_out out)" "\<not> sel_b (parse_out out)" "\<not> sel_f (parse_out out)"
      "\<not> sel_n (parse_out out)" "\<not> sel_z (parse_out out)" "\<not> sel_c (parse_out out)"
      "\<not> sel_g (parse_out out)"
      using none by (auto simp: letters)
    then show ?thesis by (simp add: cell_to_json_def cell_to_text_parts_def)
  qed
  then show ?thesis using letters by blast
qed

theorem minimal_output_witness:
  "''xQ-7'' \<noteq> [] \<and> set ''xQ-7'' \<inter> set ''vbfnzcgVBFNZCG'' = {}
   \<and> cell_to_json zero_size_cell (parse_out ''xQ-7'') = [(''row'', JInt 1), (''col'', JInt 1)]
   \<and> cell_to_text_parts zero_size_cell (parse_out ''xQ-7'') = [''c'', ''1'', ''1'']
   \<and> sel_v (parse_out ''xVq'') \<and> \<not> sel_b (parse_out ''xVq'')"
  using minimal_output [of "''xQ-7''" zero_size_cell] minimal_output [of "''xVq''" zero_size_cell]
  by (simp add: zero_size_cell_def str_int_small)

section \<open>Extraction\<close>

lemma dropWhile_all:
  "(\<forall>x \<in> set (dropWhile P s). P x) \<longleftrightarrow> (\<forall>x \<in> set s. P x)"
proof
  assume a: "\<forall>x \<in> set (dropWhile P s). P x"
  have "dropWhile P s = []"
  proof (cases "dropWhile P s")
    case (Cons y ys)
    then have "\<not> P y" using hd_dropWhile [of P s] by simp
    moreover have "P y" using a Cons by simp
    ultimately show ?thesis by simp
  qed simp
  then show "\<forall>x \<in> set s. P x" by (simp only: dropWhile_eq_Nil_conv)
next
  assume "\<forall>x \<in> set s. P x"
  then show "\<forall>x \<in> set (dropWhile P s). P x" by (meson set_dropWhileD)
qed

lemma strip_empty: "str_strip s = [] \<longleftrightarrow> (\<forall>c \<in> set s. is_space c)"
  by (simp add: str_strip_def dropWhile_all)

lemma is_blank_content: "is_blank val = (\<not> has_content val)"
  by (cases val) (auto simp: is_blank_def has_content_def strip_empty list_ex_iff)

lemma or_one_pos: "1 \<le> or_one x"
  by (simp add: or_one_def split: option.splits)

lemma sheet_range_pos:
  "sheet_range ws rs re cs ce = (r1, r2, c1, c2) \<Longrightarrow> 1 \<le> r1 \<and> 1 \<le> c1"
  using or_one_pos by (auto simp: sheet_range_def Let_def split: if_splits)

lemma collect_cols_eq:
  assumes "1 \<le> r" "\<forall>k \<in> set ks. 1 \<le> k"
  shows "collect_cols ws sparse r ks cells =
     Inr (cells @ map (\<lambda>p. make_cell (fst p) (snd p) (grid ws (fst p) (snd p)))
                   (filter (kept ws sparse) (map (\<lambda>k. (r, k)) ks)))"
  using assms
  by (induction ks arbitrary: cells) (auto simp: ws_cell_def kept_def is_blank_content)

lemma collect_rows_eq:
  assumes "\<forall>r \<in> set rs. 1 \<le> r" "\<forall>k \<in> set ks. 1 \<le> k"
  shows "collect_rows ws sparse rs ks cells =
     Inr (cells @ map (\<lambda>p. make_cell (fst p) (snd p) (grid ws (fst p) (snd p)))
                   (filter (kept ws sparse) (concat (map (\<lambda>r. map (\<lambda>k. (r, k)) ks) rs))))"
  using assms
  by (induction rs arbitrary: cells) (simp_all add: collect_cols_eq)

lemma collect_cells_eq:
  assumes "1 \<le> r1" "1 \<le> c1"
  shows "collect_cells ws r1 r2 c1 c2 sparse = Inr (expected_cells ws sparse r1 r2 c1 c2)"
  using assms by (simp add: collect_cells_def expected_cells_def row_major_def collect_rows_eq)

lemma length_row_major:
  assumes "r1 \<le> r2" "c1 \<le> c2"
  shows "length (row_major r1 r2 c1 c2) = nat ((r2 - r1 + 1) * (c2 - c1 + 1))"
proof -
  have "length (row_major r1 r2 c1 c2) = length [r1..r2] * length [c1..c2]"
    unfolding row_major_def by (induction "[r1..r2]" arbitrary: r1) (auto simp: length_concat comp_def sum_list_triv)
  then show ?thesis using assms by (simp add: nat_mult_distrib)
qed

text \<open>
  C5. For every resolved range with \<open>r1 \<le> r2\<close> and \<open>c1 \<le> c2\<close>, extraction returns (it
  does not fail) the cells of the kept coordinates in row-major order: with \<open>sparse\<close> the
  coordinates whose raw value has content, without it all \<open>(r2-r1+1)*(c2-c1+1)\<close> of them.
  The number 0 and the boolean false have content.
\<close>

theorem collect_cells_row_major:
  assumes "sheet_range ws rs re cs ce = (r1, r2, c1, c2)" "r1 \<le> r2" "c1 \<le> c2"
  shows "collect_cells ws r1 r2 c1 c2 sparse = Inr (expected_cells ws sparse r1 r2 c1 c2)
    \<and> map (\<lambda>c. (row c, col c)) (expected_cells ws sparse r1 r2 c1 c2)
        = filter (kept ws sparse) (row_major r1 r2 c1 c2)
    \<and> length (expected_cells ws False r1 r2 c1 c2) = nat ((r2 - r1 + 1) * (c2 - c1 + 1))
    \<and> has_content (VInt 0) \<and> has_content (VBool False)"
proof -
  have "map (\<lambda>c. (row c, col c)) (expected_cells ws sparse r1 r2 c1 c2)
        = filter (kept ws sparse) (row_major r1 r2 c1 c2)"
    by (simp add: expected_cells_def make_cell_def comp_def)
  moreover have "length (expected_cells ws False r1 r2 c1 c2) = nat ((r2 - r1 + 1) * (c2 - c1 + 1))"
    using length_row_major [OF assms(2,3)] by (simp add: expected_cells_def kept_def)
  ultimately show ?thesis
    using collect_cells_eq [of r1 c1 ws r2 c2 sparse] sheet_range_pos [OF assms(1)]
    by (simp add: has_content_def)
qed

theorem collect_cells_row_major_witness:
  "sheet_range sample_sheet 0 0 0 3 = (1, 2, 1, 3)
   \<and> collect_cells sample_sheet 1 2 1 3 True = Inr (expected_cells sample_sheet True 1 2 1 3)
   \<and> map (\<lambda>c. (row c, col c)) (expected_cells sample_sheet True 1 2 1 3)
       = [(1, 1), (1, 2), (2, 1), (2, 2)]
   \<and> length (expected_cells sample_sheet False 1 2 1 3) = 6"
proof -
  have r: "sheet_range sample_sheet 0 0 0 3 = (1, 2, 1, 3)"
    by (simp add: sheet_range_def sample_sheet_def or_one_def)
  have k: "filter (kept sample_sheet True) (row_major 1 2 1 3) = [(1, 1), (1, 2), (2, 1), (2, 2)]"
    by code_simp
  show ?thesis
    using collect_cells_row_major [OF r, of True] r k by simp
qed

section \<open>The tool facade\<close>

text \<open>
  What the facade does: for a path \<open>Path(filepath).exists()\<close> denies, it returns the
  error string, as a result and not as a fault; for any other path, a directory as much
  as a file, it hands \<open>str(Path(filepath))\<close> to the pipeline and returns what that
  returns, a fault of the loader included.
\<close>

lemma facade_behaviour:
  "server_read_excel h filepath out fmt sheets rs re cs ce sparse =
     (if path_exists h filepath
      then read_excel h (path_str h filepath) out fmt sheets rs re cs ce sparse
      else Inr (''error: file not found: '' @ filepath))"
  by (simp add: server_read_excel_def)

lemma read_excel_load_fault:
  "load_workbook h path = Inl e \<Longrightarrow>
     read_excel h path out fmt sheets rs re cs ce sparse = Inl e"
  by (simp add: read_excel_def)

text \<open>
  C8 fails for the empty path. It names no existing file, but \<open>Path("")\<close> is the current
  directory, which exists: on every host the facade goes on to the loader and ends with the
  loader's fault, not with the error string. The entry point \<open>_main\<close> tests \<open>not path\<close>
  first and ends with the usage message. A path that names a directory fails in the facade
  in the same way.
\<close>

theorem facade_empty_path:
  "\<not> names_file h []
   \<and> server_read_excel h [] out fmt sheets rs re cs ce sparse = Inl LoadFault
   \<and> server_read_excel h [] out fmt sheets rs re cs ce sparse
       \<noteq> Inr (''error: file not found: '' @ [])
   \<and> main h [prog, []] = UsageExit
   \<and> \<not> names_file sample_host ''data''
   \<and> server_read_excel sample_host ''data'' out fmt sheets rs re cs ce sparse = Inl LoadFault"
proof -
  have e: "path_exists h []" "load_workbook h (path_str h []) = Inl LoadFault" "\<not> names_file h []"
    by (simp_all add: path_exists_def load_workbook_def path_str_def os_stat_def names_file_def)
  have d: "path_exists sample_host ''data''"
    "load_workbook sample_host (path_str sample_host ''data'') = Inl LoadFault"
    "\<not> names_file sample_host ''data''"
    by (simp_all add: path_exists_def load_workbook_def path_str_def os_stat_def names_file_def
        sample_host_def)
  have m: "main h [prog, []] = UsageExit"
    by (simp add: main_def str_strip_def)
  show ?thesis
    using e d m read_excel_load_fault [of h "path_str h []" LoadFault]
      read_excel_load_fault [of sample_host "path_str sample_host ''data''" LoadFault]
    by (simp add: facade_behaviour)
qed

section \<open>What \<open>read_excel\<close> computes\<close>

lemma in_sheetnames: "name \<in> set (sheetnames wb) \<longleftrightarrow> map_of wb name \<noteq> None"
  by (simp add: sheetnames_def map_of_eq_None_iff)

lemma collect_sheets_eq:
  "collect_sheets wb names rs re cs ce sparse cbs =
     Inr (\<lambda>n. if n \<in> set names \<and> in_output wb rs re cs ce n
               then Some (cells_of wb rs re cs ce sparse n) else cbs n)"
proof (induction names arbitrary: cbs)
  case Nil
  then show ?case by simp
next
  case (Cons name names)
  show ?case
  proof (cases "map_of wb name")
    case None
    then have "\<not> in_output wb rs re cs ce name" by (simp add: in_output_def)
    then show ?thesis
      using Cons.IH [of cbs] None by (auto simp: in_sheetnames fun_eq_iff)
  next
    case (Some ws)
    obtain r1 r2 c1 c2 where r: "sheet_range ws rs re cs ce = (r1, r2, c1, c2)"
      by (metis prod_cases4)
    show ?thesis
    proof (cases "r2 < r1 \<or> c2 < c1")
      case True
      then have "\<not> in_output wb rs re cs ce name" using Some r by (auto simp: in_output_def)
      then show ?thesis
        using Cons.IH [of cbs] Some r True
        by (auto simp: in_sheetnames wb_getitem_def fun_eq_iff)
    next
      case False
      then have io: "in_output wb rs re cs ce name" using Some r by (auto simp: in_output_def)
      have co: "cells_of wb rs re cs ce sparse name = expected_cells ws sparse r1 r2 c1 c2"
        using Some r by (simp add: cells_of_def)
      have cc: "collect_cells ws r1 r2 c1 c2 sparse = Inr (expected_cells ws sparse r1 r2 c1 c2)"
        using sheet_range_pos [OF r] by (simp add: collect_cells_eq)
      have step: "collect_sheets wb (name # names) rs re cs ce sparse cbs =
          collect_sheets wb names rs re cs ce sparse
            (cbs(name \<mapsto> expected_cells ws sparse r1 r2 c1 c2))"
        using False Some r cc by (simp add: in_sheetnames wb_getitem_def)
      have "(\<lambda>n. if n \<in> set names \<and> in_output wb rs re cs ce n
                 then Some (cells_of wb rs re cs ce sparse n)
                 else (cbs(name \<mapsto> expected_cells ws sparse r1 r2 c1 c2)) n)
          = (\<lambda>n. if n \<in> set (name # names) \<and> in_output wb rs re cs ce n
                 then Some (cells_of wb rs re cs ce sparse n) else cbs n)"
        using io co by (auto simp: fun_eq_iff)
      then show ?thesis
        using step Cons.IH [of "cbs(name \<mapsto> expected_cells ws sparse r1 r2 c1 c2)"]
        by (simp only:)
    qed
  qed
qed

lemma dict_set_same:
  "dict_set (map (\<lambda>n. (n, g n)) ks) k (g k) =
     (if k \<in> set ks then map (\<lambda>n. (n, g n)) ks else map (\<lambda>n. (n, g n)) (ks @ [k]))"
  by (induction ks) auto

lemma first_occurrences_filter:
  "first_occurrences (filter P xs) = filter P (first_occurrences xs)"
  by (induction xs) (auto simp: filter_filter intro!: filter_cong)

lemma set_first_occurrences [simp]: "set (first_occurrences xs) = set xs"
  by (induction xs) auto

lemma distinct_first_occurrences: "distinct (first_occurrences xs)"
  by (induction xs) (auto simp: distinct_filter)

lemma json_result_eq:
  assumes "\<And>n. cbs n = (if P n then Some (g n) else None)"
  shows "json_result names cbs flds (map (\<lambda>n. (n, sheet_json (g n) flds)) ks) =
     map (\<lambda>n. (n, sheet_json (g n) flds))
       (ks @ first_occurrences (filter (\<lambda>n. P n \<and> n \<notin> set ks) names))"
proof (induction names arbitrary: ks)
  case Nil
  then show ?case by simp
next
  case (Cons name names)
  show ?case
  proof (cases "P name")
    case False
    then show ?thesis using Cons.IH [of ks] by (simp add: assms)
  next
    case True
    show ?thesis
    proof (cases "name \<in> set ks")
      case True
      then show ?thesis
        using \<open>P name\<close> Cons.IH [of ks] dict_set_same [of "\<lambda>n. sheet_json (g n) flds" ks name]
        by (simp add: assms)
    next
      case False
      have "filter (\<lambda>n. P n \<and> n \<notin> set (ks @ [name])) names
          = filter (\<lambda>y. y \<noteq> name) (filter (\<lambda>n. P n \<and> n \<notin> set ks) names)"
        by (induction names) auto
      then show ?thesis
        using False \<open>P name\<close> Cons.IH [of "ks @ [name]"]
          dict_set_same [of "\<lambda>n. sheet_json (g n) flds" ks name]
        by (simp add: assms first_occurrences_filter)
    qed
  qed
qed

lemma text_lines_eq:
  assumes "\<And>n. cbs n = (if P n then Some (g n) else None)"
  shows "text_lines names cbs flds lines =
     lines @ concat (map (\<lambda>n. sheet_lines n (g n) flds) (filter P names))"
  by (induction names arbitrary: lines) (simp_all add: assms)

lemma read_excel_eq:
  assumes "load_workbook h path = Inr wb"
  shows "read_excel h path out fmt sheets rs re cs ce sparse =
     Inr (if fmt_char fmt = ''j''
          then json_dumps (JDict (structured_doc wb (parse_out out) rs re cs ce sparse (requested wb sheets)))
          else str_join [newline] (text_doc wb (parse_out out) rs re cs ce sparse (requested wb sheets)))"
proof -
  let ?names = "requested wb sheets"
  let ?P = "\<lambda>n. n \<in> set ?names \<and> in_output wb rs re cs ce n"
  let ?cbs = "\<lambda>n. if ?P n then Some (cells_of wb rs re cs ce sparse n) else None"
  have c: "collect_sheets wb ?names rs re cs ce sparse Map.empty = Inr ?cbs"
    by (simp add: collect_sheets_eq)
  have f: "filter ?P ?names = filter (in_output wb rs re cs ce) ?names"
    by (rule filter_cong) auto
  have j: "json_result ?names ?cbs (parse_out out) [] =
      structured_doc wb (parse_out out) rs re cs ce sparse ?names"
    using json_result_eq [of ?cbs ?P "cells_of wb rs re cs ce sparse" ?names "parse_out out" "[]"] f
    by (simp add: structured_doc_def)
  have t: "text_lines ?names ?cbs (parse_out out) [] =
      text_doc wb (parse_out out) rs re cs ce sparse ?names"
    using text_lines_eq [of ?cbs ?P "cells_of wb rs re cs ce sparse" ?names "parse_out out" "[]"] f
    by (simp add: text_doc_def)
  show ?thesis
    using assms c j t by (simp add: read_excel_def requested_def Let_def)
qed

lemma str_join_head:
  "str_join sep ((c # x) # xs) \<noteq> [] \<and> hd (str_join sep ((c # x) # xs)) = c"
  by (cases xs) simp_all

lemma cell_line_head:
  "str_join sep (cell_to_text_parts c flds) \<noteq> []
   \<and> hd (str_join sep (cell_to_text_parts c flds)) = CHR ''c''"
  unfolding cell_to_text_parts_def by simp

lemma header_not_cell_line:
  "''>'' @ x \<noteq> str_join sep (cell_to_text_parts c flds)"
proof
  assume "''>'' @ x = str_join sep (cell_to_text_parts c flds)"
  then have "hd (''>'' @ x) = hd (str_join sep (cell_to_text_parts c flds))" by simp
  then show False by (simp add: cell_line_head)
qed

lemma text_doc_head:
  "text_doc wb flds rs re cs ce sparse names = []
   \<or> (str_join sep (text_doc wb flds rs re cs ce sparse names) \<noteq> []
      \<and> hd (str_join sep (text_doc wb flds rs re cs ce sparse names)) = CHR ''>'')"
proof (cases "filter (in_output wb rs re cs ce) names")
  case Nil
  then show ?thesis by (simp add: text_doc_def)
next
  case (Cons n ns)
  then show ?thesis
    using str_join_head by (simp add: text_doc_def sheet_lines_def)
qed

lemma encodings_differ:
  "structured_encoding wb out rs re cs ce sparse sheets \<noteq> text_encoding wb out rs re cs ce sparse sheets"
proof -
  have "structured_encoding wb out rs re cs ce sparse sheets \<noteq> []
      \<and> hd (structured_encoding wb out rs re cs ce sparse sheets) = CHR ''{''"
    by (simp add: structured_encoding_def)
  moreover have "text_encoding wb out rs re cs ce sparse sheets = []
     \<or> hd (text_encoding wb out rs re cs ce sparse sheets) = CHR ''>''"
    using text_doc_head [of wb "parse_out out" rs re cs ce sparse "requested wb sheets" "[newline]"]
    by (auto simp: text_encoding_def)
  ultimately show ?thesis by auto
qed

section \<open>Choice of the encoding\<close>

text \<open>
  C1 as stated fails: for \<open>fmt = "x"\<close>, whose first character is not \<open>t\<close>, the result is
  the delimited-text encoding, the same as for \<open>fmt = "t"\<close>.
\<close>

theorem fmt_other_letter_gives_text:
  "fmt_char ''x'' \<noteq> ''t''
   \<and> read_excel sample_host ''a.xlsx'' ''vb'' ''x'' [] 0 0 0 0 True
      = Inr (str_join [newline]
          [''>Sheet1'',
           str_join [tab] [''c'', ''1'', ''1'', ''Name'', ''1''],
           str_join [tab] [''c'', ''1'', ''2'', ''Age'', ''0''],
           str_join [tab] [''c'', ''2'', ''1'', ''Amy'', ''0''],
           str_join [tab] [''c'', ''2'', ''2'', ''30'', ''0'']])
   \<and> read_excel sample_host ''a.xlsx'' ''vb'' ''x'' [] 0 0 0 0 True
      = read_excel sample_host ''a.xlsx'' ''vb'' ''t'' [] 0 0 0 0 True
   \<and> read_excel sample_host ''a.xlsx'' ''vb'' ''x'' [] 0 0 0 0 True
      \<noteq> read_excel sample_host ''a.xlsx'' ''vb'' ''j'' [] 0 0 0 0 True"
  by code_simp

text \<open>
  C1, amended. The result is the structured encoding exactly when \<open>fmt\<close> is empty or its
  first character is \<open>j\<close> or \<open>J\<close>; for every other \<open>fmt\<close> it is the delimited-text
  encoding. The two encodings of a workbook are never the same string.
\<close>

theorem fmt_selects_encoding:
  assumes "load_workbook h path = Inr wb"
  shows "read_excel h path out fmt sheets rs re cs ce sparse =
      Inr (if fmt = [] \<or> hd fmt = CHR ''j'' \<or> hd fmt = CHR ''J''
           then structured_encoding wb out rs re cs ce sparse sheets
           else text_encoding wb out rs re cs ce sparse sheets)
    \<and> structured_encoding wb out rs re cs ce sparse sheets
        \<noteq> text_encoding wb out rs re cs ce sparse sheets"
  using read_excel_eq [OF assms, of out fmt sheets rs re cs ce sparse] encodings_differ
  by (simp add: fmt_char_j structured_encoding_def text_encoding_def)

theorem fmt_selects_encoding_witness:
  "load_workbook sample_host ''a.xlsx'' = Inr [(''Sheet1'', sample_sheet)]
   \<and> read_excel sample_host ''a.xlsx'' ''vb'' ''J'' [] 0 0 0 0 True
      = Inr (structured_encoding [(''Sheet1'', sample_sheet)] ''vb'' 0 0 0 0 True [])
   \<and> read_excel sample_host ''a.xlsx'' ''vb'' ''text'' [] 0 0 0 0 True
      = Inr (text_encoding [(''Sheet1'', sample_sheet)] ''vb'' 0 0 0 0 True [])"
  using fmt_selects_encoding [of sample_host "''a.xlsx''" "[(''Sheet1'', sample_sheet)]" "''vb''" "''J''" "[]" 0 0 0 0 True]
    fmt_selects_encoding [of sample_host "''a.xlsx''" "[(''Sheet1'', sample_sheet)]" "''vb''" "''text''" "[]" 0 0 0 0 True]
  by (simp add: sample_host_def load_workbook_def os_stat_def)

section \<open>Which sheets appear in the output\<close>

lemma set_structured_doc:
  "fst ` set (structured_doc wb flds rs re cs ce sparse names)
     = {n \<in> set names. in_output wb rs re cs ce n}"
  by (auto simp: structured_doc_def image_iff)

lemma keys_structured_doc:
  "map fst (structured_doc wb flds rs re cs ce sparse names)
     = first_occurrences (filter (in_output wb rs re cs ce) names)"
  by (simp add: structured_doc_def comp_def)

lemma entry_structured_doc:
  "n \<in> set names \<Longrightarrow> in_output wb rs re cs ce n \<Longrightarrow>
     (n, sheet_json (cells_of wb rs re cs ce sparse n) flds)
       \<in> set (structured_doc wb flds rs re cs ce sparse names)"
  by (auto simp: structured_doc_def)

lemma header_in_sheet_lines:
  "(CHR ''>'' # esc n) \<in> set (sheet_lines m cells flds) \<longleftrightarrow> m = n"
  using header_not_cell_line [of "esc n" "[tab]" _ flds] inj_esc
  by (auto simp: sheet_lines_def inj_def)

lemma header_in_text_doc:
  "(CHR ''>'' # esc n) \<in> set (text_doc wb flds rs re cs ce sparse names)
     \<longleftrightarrow> n \<in> set names \<and> in_output wb rs re cs ce n"
  by (auto simp: text_doc_def header_in_sheet_lines)

lemma count_header_sheet_lines:
  "count_list (sheet_lines m cells flds) (CHR ''>'' # esc n) = (if m = n then 1 else 0)"
proof -
  have "count_list (map (\<lambda>c. str_join [tab] (cell_to_text_parts c flds)) cells) (CHR ''>'' # esc n) = 0"
    using header_not_cell_line [of "esc n" "[tab]" _ flds] by (auto simp: count_list_0_iff)
  then show ?thesis
    using inj_esc by (auto simp: sheet_lines_def inj_def)
qed

lemma text_doc_blocks:
  "text_doc wb flds rs re cs ce sparse names =
     concat (map (\<lambda>m. if in_output wb rs re cs ce m
                      then sheet_lines m (cells_of wb rs re cs ce sparse m) flds else []) names)"
  unfolding text_doc_def by (induction names) simp_all

lemma count_header_text_doc:
  "count_list (text_doc wb flds rs re cs ce sparse names) (CHR ''>'' # esc n)
     = (if in_output wb rs re cs ce n then count_list names n else 0)"
  unfolding text_doc_def
  by (induction names) (auto simp: count_header_sheet_lines)

lemma headers_text_doc:
  "filter is_header (text_doc wb flds rs re cs ce sparse names)
     = map (\<lambda>n. CHR ''>'' # esc n) (filter (in_output wb rs re cs ce) names)"
proof -
  have "filter is_header (sheet_lines m cells flds) = [CHR ''>'' # esc m]" for m cells
  proof -
    have "\<not> is_header (str_join [tab] (cell_to_text_parts c flds))" for c
      using cell_line_head [of "[tab]" c flds]
      by (cases "str_join [tab] (cell_to_text_parts c flds)") (auto simp: is_header_def)
    then show ?thesis by (simp add: sheet_lines_def is_header_def)
  qed
  then show ?thesis
    unfolding text_doc_def by (induction names) simp_all
qed

lemma count_distinct: "distinct xs \<Longrightarrow> x \<in> set xs \<Longrightarrow> count_list xs x = 1"
  by (induction xs) auto

lemma all_blank_cells:
  assumes "map_of wb n = Some ws" "sheet_range ws rs re cs ce = (r1, r2, c1, c2)"
    "\<forall>p \<in> set (row_major r1 r2 c1 c2). \<not> has_content (c_value (grid ws (fst p) (snd p)))"
  shows "cells_of wb rs re cs ce True n = []"
  using assms by (simp add: cells_of_def expected_cells_def kept_def filter_empty_conv)

lemma getitem_map_of: "wb_getitem wb n = Inr ws \<longleftrightarrow> map_of wb n = Some ws"
  by (simp add: wb_getitem_def split: option.splits)

text \<open>
  C7. With \<open>D\<close> the dictionary the structured branch serializes and \<open>L\<close> the lines the
  text branch joins: a requested name that is not in the workbook, or whose resolved range
  is inverted, has no entry in \<open>D\<close> and no header line in \<open>L\<close>; a requested sheet with a
  valid range all of whose cells sparse extraction skips has the entry with the empty cell
  list in \<open>D\<close> and the header line alone in \<open>L\<close>; the entries of \<open>D\<close> and the header lines
  of \<open>L\<close> follow the requested order of the sheets that contribute output.
\<close>

theorem absent_and_present_sheets:
  fixes h path out fmt sheets rs re cs ce sparse wb
  defines "names \<equiv> requested wb sheets"
  defines "D \<equiv> structured_doc wb (parse_out out) rs re cs ce sparse names"
  defines "L \<equiv> text_doc wb (parse_out out) rs re cs ce sparse names"
  assumes load: "load_workbook h path = Inr wb"
  shows "read_excel h path out fmt sheets rs re cs ce sparse
        = Inr (if fmt_char fmt = ''j'' then json_dumps (JDict D) else str_join [newline] L)
    \<and> (n \<notin> set (sheetnames wb) \<longrightarrow> n \<notin> fst ` set D \<and> (''>'' @ esc n) \<notin> set L)
    \<and> (wb_getitem wb n = Inr ws \<and> sheet_range ws rs re cs ce = (r1, r2, c1, c2)
         \<and> (r2 < r1 \<or> c2 < c1) \<longrightarrow> n \<notin> fst ` set D \<and> (''>'' @ esc n) \<notin> set L)
    \<and> (n \<in> set names \<and> wb_getitem wb n = Inr ws \<and> sheet_range ws rs re cs ce = (r1, r2, c1, c2)
         \<and> r1 \<le> r2 \<and> c1 \<le> c2 \<and> sparse
         \<and> (\<forall>p \<in> set (row_major r1 r2 c1 c2). \<not> has_content (c_value (grid ws (fst p) (snd p))))
       \<longrightarrow> (n, JDict [(''cells'', JList [])]) \<in> set D \<and> (''>'' @ esc n) \<in> set L
           \<and> sheet_lines n (cells_of wb rs re cs ce sparse n) (parse_out out) = [''>'' @ esc n])
    \<and> map fst D = first_occurrences (filter (in_output wb rs re cs ce) names)
    \<and> filter is_header L = map (\<lambda>n. ''>'' @ esc n) (filter (in_output wb rs re cs ce) names)"
proof -
  have 1: "read_excel h path out fmt sheets rs re cs ce sparse
        = Inr (if fmt_char fmt = ''j'' then json_dumps (JDict D) else str_join [newline] L)"
    using read_excel_eq [OF load] by (simp add: D_def L_def names_def)
  have absent: "n \<notin> fst ` set D \<and> (''>'' @ esc n) \<notin> set L" if "\<not> in_output wb rs re cs ce n"
    using that by (simp add: D_def L_def set_structured_doc header_in_text_doc)
  have 2: "n \<notin> set (sheetnames wb) \<longrightarrow> n \<notin> fst ` set D \<and> (''>'' @ esc n) \<notin> set L"
  proof
    assume "n \<notin> set (sheetnames wb)"
    then have "\<not> in_output wb rs re cs ce n"
      by (simp add: in_sheetnames in_output_def)
    then show "n \<notin> fst ` set D \<and> (''>'' @ esc n) \<notin> set L" by (rule absent)
  qed
  have 3: "wb_getitem wb n = Inr ws \<and> sheet_range ws rs re cs ce = (r1, r2, c1, c2)
         \<and> (r2 < r1 \<or> c2 < c1) \<longrightarrow> n \<notin> fst ` set D \<and> (''>'' @ esc n) \<notin> set L"
  proof
    assume "wb_getitem wb n = Inr ws \<and> sheet_range ws rs re cs ce = (r1, r2, c1, c2)
         \<and> (r2 < r1 \<or> c2 < c1)"
    then have "\<not> in_output wb rs re cs ce n"
      by (auto simp: getitem_map_of in_output_def)
    then show "n \<notin> fst ` set D \<and> (''>'' @ esc n) \<notin> set L" by (rule absent)
  qed
  have 4: "(n, JDict [(''cells'', JList [])]) \<in> set D \<and> (''>'' @ esc n) \<in> set L
           \<and> sheet_lines n (cells_of wb rs re cs ce sparse n) (parse_out out) = [''>'' @ esc n]"
    if a: "n \<in> set names" "wb_getitem wb n = Inr ws" "sheet_range ws rs re cs ce = (r1, r2, c1, c2)"
      "r1 \<le> r2" "c1 \<le> c2" "sparse"
      "\<forall>p \<in> set (row_major r1 r2 c1 c2). \<not> has_content (c_value (grid ws (fst p) (snd p)))"
  proof -
    have io: "in_output wb rs re cs ce n" using a by (simp add: getitem_map_of in_output_def)
    have e: "cells_of wb rs re cs ce sparse n = []"
      using all_blank_cells [of wb n ws rs re cs ce r1 r2 c1 c2] a by (simp add: getitem_map_of)
    show ?thesis
      using entry_structured_doc [OF a(1) io, of sparse "parse_out out"] a(1) io e
      by (simp add: D_def L_def header_in_text_doc sheet_json_def sheet_lines_def)
  qed
  have 5: "map fst D = first_occurrences (filter (in_output wb rs re cs ce) names)"
    by (simp add: D_def keys_structured_doc)
  have 6: "filter is_header L = map (\<lambda>n. ''>'' @ esc n) (filter (in_output wb rs re cs ce) names)"
    by (simp add: L_def headers_text_doc)
  show ?thesis using 1 2 3 4 5 6 by blast
qed

theorem absent_and_present_sheets_witness:
  "load_workbook sample_host ''a.xlsx'' = Inr [(''Sheet1'', sample_sheet)]
   \<and> ''Nope'' \<notin> fst ` set (structured_doc [(''Sheet1'', sample_sheet)] (parse_out ''v'') 3 3 0 0 True
         (requested [(''Sheet1'', sample_sheet)] ''Nope,Sheet1''))
   \<and> ''>Nope'' \<notin> set (text_doc [(''Sheet1'', sample_sheet)] (parse_out ''v'') 3 3 0 0 True
         (requested [(''Sheet1'', sample_sheet)] ''Nope,Sheet1''))
   \<and> (''Sheet1'', JDict [(''cells'', JList [])])
       \<in> set (structured_doc [(''Sheet1'', sample_sheet)] (parse_out ''v'') 3 3 0 0 True
         (requested [(''Sheet1'', sample_sheet)] ''Nope,Sheet1''))
   \<and> ''>Sheet1'' \<in> set (text_doc [(''Sheet1'', sample_sheet)] (parse_out ''v'') 3 3 0 0 True
         (requested [(''Sheet1'', sample_sheet)] ''Nope,Sheet1''))
   \<and> ''Sheet1'' \<notin> fst ` set (structured_doc [(''Sheet1'', sample_sheet)] (parse_out ''v'') 3 2 0 0 True
         (requested [(''Sheet1'', sample_sheet)] ''Nope,Sheet1''))
   \<and> read_excel sample_host ''a.xlsx'' ''v'' ''t'' ''Nope,Sheet1'' 3 3 0 0 True = Inr ''>Sheet1''"
proof -
  let ?wb = "[(''Sheet1'', sample_sheet)]"
  have l: "load_workbook sample_host ''a.xlsx'' = Inr ?wb"
    by (simp add: sample_host_def load_workbook_def os_stat_def)
  have r: "requested ?wb ''Nope,Sheet1'' = [''Nope'', ''Sheet1'']"
    by code_simp
  have m: "''Sheet1'' \<in> set (requested ?wb ''Nope,Sheet1'')"
    by (simp add: r)
  have n: "''Nope'' \<notin> set (sheetnames ?wb)"
    by code_simp
  have g: "wb_getitem ?wb ''Sheet1'' = Inr sample_sheet"
    by (simp add: wb_getitem_def)
  have s: "sheet_range sample_sheet 3 3 0 0 = (3, 3, 1, 2)"
    "sheet_range sample_sheet 3 2 0 0 = (3, 2, 1, 2)"
    by (simp_all add: sheet_range_def sample_sheet_def or_one_def)
  have b: "\<forall>p \<in> set (row_major 3 3 1 2). \<not> has_content (c_value (grid sample_sheet (fst p) (snd p)))"
    by code_simp
  have e: "''>'' @ esc ''Sheet1'' = ''>Sheet1''" "''>'' @ esc ''Nope'' = ''>Nope''"
    by code_simp+
  have t: "read_excel sample_host ''a.xlsx'' ''v'' ''t'' ''Nope,Sheet1'' 3 3 0 0 True = Inr ''>Sheet1''"
    by code_simp
  note absent = absent_and_present_sheets [OF l, where n = "''Nope''" and out = "''v''" and rs = 3 and re = 3
      and cs = 0 and ce = 0 and sparse = True and sheets = "''Nope,Sheet1''"]
  note blank = absent_and_present_sheets [OF l, where n = "''Sheet1''" and out = "''v''" and rs = 3 and re = 3
      and cs = 0 and ce = 0 and sparse = True and sheets = "''Nope,Sheet1''"
      and ws = sample_sheet and ?r1.0 = 3 and ?r2.0 = 3 and ?c1.0 = 1 and ?c2.0 = 2]
  note inverted = absent_and_present_sheets [OF l, where n = "''Sheet1''" and out = "''v''" and rs = 3 and re = 2
      and cs = 0 and ce = 0 and sparse = True and sheets = "''Nope,Sheet1''"
      and ws = sample_sheet and ?r1.0 = 3 and ?r2.0 = 2 and ?c1.0 = 1 and ?c2.0 = 2]
  from absent n have 1: "''Nope'' \<notin> fst ` set (structured_doc ?wb (parse_out ''v'') 3 3 0 0 True
         (requested ?wb ''Nope,Sheet1''))
     \<and> (''>'' @ esc ''Nope'') \<notin> set (text_doc ?wb (parse_out ''v'') 3 3 0 0 True
         (requested ?wb ''Nope,Sheet1''))"
    by blast
  from blank m g s(1) b have 2: "(''Sheet1'', JDict [(''cells'', JList [])])
       \<in> set (structured_doc ?wb (parse_out ''v'') 3 3 0 0 True (requested ?wb ''Nope,Sheet1''))
     \<and> (''>'' @ esc ''Sheet1'') \<in> set (text_doc ?wb (parse_out ''v'') 3 3 0 0 True
         (requested ?wb ''Nope,Sheet1''))"
    by simp
  from inverted g s(2) have 3: "''Sheet1'' \<notin> fst ` set (structured_doc ?wb (parse_out ''v'') 3 2 0 0 True
         (requested ?wb ''Nope,Sheet1''))"
    by simp
  show ?thesis
    using l 1 2 3 t unfolding e by (intro conjI) simp_all
qed

text \<open>
  C10 as stated fails when the resolved range is inverted: the sheet exists and is listed
  twice, and neither encoding has anything for it.
\<close>

theorem duplicate_inverted_range:
  "''Sheet1'' \<in> set (sheetnames [(''Sheet1'', sample_sheet)])
   \<and> count_list (parse_sheets ''Sheet1,Sheet1'') ''Sheet1'' = 2
   \<and> read_excel sample_host ''a.xlsx'' ''vb'' ''j'' ''Sheet1,Sheet1'' 2 1 0 0 True = Inr ''{}''
   \<and> read_excel sample_host ''a.xlsx'' ''vb'' ''t'' ''Sheet1,Sheet1'' 2 1 0 0 True = Inr []"
  by code_simp

text \<open>
  C10, amended. For a requested name that contributes output (it is in the workbook and its
  resolved range is not inverted), the structured dictionary has exactly one entry, and the
  text lines are the blocks of the requested names in order, one block for each occurrence:
  the header line of the name occurs as many times as the name is listed.
\<close>

theorem duplicate_sheet_names:
  fixes h path out fmt sheets rs re cs ce sparse wb
  defines "names \<equiv> requested wb sheets"
  defines "D \<equiv> structured_doc wb (parse_out out) rs re cs ce sparse names"
  defines "L \<equiv> text_doc wb (parse_out out) rs re cs ce sparse names"
  assumes load: "load_workbook h path = Inr wb"
    and req: "n \<in> set names" and io: "in_output wb rs re cs ce n"
  shows "read_excel h path out fmt sheets rs re cs ce sparse
        = Inr (if fmt_char fmt = ''j'' then json_dumps (JDict D) else str_join [newline] L)
    \<and> count_list (map fst D) n = 1
    \<and> L = concat (map (\<lambda>m. if in_output wb rs re cs ce m
                 then sheet_lines m (cells_of wb rs re cs ce sparse m) (parse_out out) else []) names)
    \<and> count_list L (''>'' @ esc n) = count_list names n"
proof -
  have "read_excel h path out fmt sheets rs re cs ce sparse
        = Inr (if fmt_char fmt = ''j'' then json_dumps (JDict D) else str_join [newline] L)"
    using read_excel_eq [OF load] by (simp add: D_def L_def names_def)
  moreover have "count_list (map fst D) n = 1"
    unfolding D_def keys_structured_doc
    using req io by (intro count_distinct distinct_first_occurrences) simp
  moreover have "L = concat (map (\<lambda>m. if in_output wb rs re cs ce m
                 then sheet_lines m (cells_of wb rs re cs ce sparse m) (parse_out out) else []) names)"
    unfolding L_def by (rule text_doc_blocks)
  moreover have "count_list L (''>'' @ esc n) = count_list names n"
    using io by (simp add: L_def count_header_text_doc)
  ultimately show ?thesis by simp
qed

theorem duplicate_sheet_names_witness:
  "load_workbook sample_host ''a.xlsx'' = Inr [(''Sheet1'', sample_sheet)]
   \<and> count_list (requested [(''Sheet1'', sample_sheet)] ''Sheet1, Sheet1'') ''Sheet1'' = 2
   \<and> in_output [(''Sheet1'', sample_sheet)] 2 0 0 0 ''Sheet1''
   \<and> count_list (map fst (structured_doc [(''Sheet1'', sample_sheet)] (parse_out ''v'') 2 0 0 0 True
         (requested [(''Sheet1'', sample_sheet)] ''Sheet1, Sheet1''))) ''Sheet1'' = 1
   \<and> count_list (text_doc [(''Sheet1'', sample_sheet)] (parse_out ''v'') 2 0 0 0 True
         (requested [(''Sheet1'', sample_sheet)] ''Sheet1, Sheet1'')) ''>Sheet1'' = 2
   \<and> read_excel sample_host ''a.xlsx'' ''v'' ''t'' ''Sheet1, Sheet1'' 2 0 0 0 True
       = Inr (str_join [newline]
           [''>Sheet1'', str_join [tab] [''c'', ''2'', ''1'', ''Amy''],
            str_join [tab] [''c'', ''2'', ''2'', ''30''],
            ''>Sheet1'', str_join [tab] [''c'', ''2'', ''1'', ''Amy''],
            str_join [tab] [''c'', ''2'', ''2'', ''30'']])"
proof -
  let ?wb = "[(''Sheet1'', sample_sheet)]"
  have l: "load_workbook sample_host ''a.xlsx'' = Inr ?wb"
    by (simp add: sample_host_def load_workbook_def os_stat_def)
  have r: "requested ?wb ''Sheet1, Sheet1'' = [''Sheet1'', ''Sheet1'']"
    by code_simp
  have m: "''Sheet1'' \<in> set (requested ?wb ''Sheet1, Sheet1'')"
    by (simp add: r)
  have c: "count_list (requested ?wb ''Sheet1, Sheet1'') ''Sheet1'' = 2"
    by (simp add: r)
  have i: "in_output ?wb 2 0 0 0 ''Sheet1''"
    by code_simp
  have e: "''>'' @ esc ''Sheet1'' = ''>Sheet1''"
    by code_simp
  have t: "read_excel sample_host ''a.xlsx'' ''v'' ''t'' ''Sheet1, Sheet1'' 2 0 0 0 True
       = Inr (str_join [newline]
           [''>Sheet1'', str_join [tab] [''c'', ''2'', ''1'', ''Amy''],
            str_join [tab] [''c'', ''2'', ''2'', ''30''],
            ''>Sheet1'', str_join [tab] [''c'', ''2'', ''1'', ''Amy''],
            str_join [tab] [''c'', ''2'', ''2'', ''30'']])"
    by code_simp
  note twice = duplicate_sheet_names [OF l m i, where out = "''v''" and fmt = "''t''" and sparse = True]
  from twice have one: "count_list (map fst (structured_doc ?wb (parse_out ''v'') 2 0 0 0 True
         (requested ?wb ''Sheet1, Sheet1''))) ''Sheet1'' = 1"
    by blast
  from twice have "count_list (text_doc ?wb (parse_out ''v'') 2 0 0 0 True
         (requested ?wb ''Sheet1, Sheet1'')) (''>'' @ esc ''Sheet1'')
       = count_list (requested ?wb ''Sheet1, Sheet1'') ''Sheet1''"
    by blast
  then have two: "count_list (text_doc ?wb (parse_out ''v'') 2 0 0 0 True
         (requested ?wb ''Sheet1, Sheet1'')) ''>Sheet1'' = 2"
    by (simp only: e c)
  show ?thesis
    using l c i one two t by (intro conjI)
qed

end
